theory Spec2Isabelle
  imports Main
begin

section \<open>Errors\<close>

text \<open>
  The sentinels of \<^verbatim>\<open>pkg/hub/errors.go\<close>, the two errors of Go's package
  \<^verbatim>\<open>context\<close>, an error made outside this package (by the transport or by the JSON
  codec), known by its text, and the value \<^verbatim>\<open>fmt.Errorf\<close> builds when its format holds a
  \<^verbatim>\<open>%w\<close>: a message and the error it wraps.
\<close>

datatype error =
    ErrNotConnected
  | ErrNotInitialized
  | ErrInvalidQuestID
  | ErrInvalidTemplateID
  | ErrConnectionTimeout
  | ErrInvokeFailed
  | ErrQuestNotFound
  | ErrBundleNotFound
  | Canceled
  | DeadlineExceeded
  | Foreign string
  | WrapError string error

text \<open>The text \<^verbatim>\<open>err.Error()\<close> returns.\<close>

fun errorString :: "error \<Rightarrow> string" where
  "errorString ErrNotConnected = ''client is not connected''"
| "errorString ErrNotInitialized = ''service not initialized''"
| "errorString ErrInvalidQuestID = ''invalid quest ID''"
| "errorString ErrInvalidTemplateID = ''invalid template ID''"
| "errorString ErrConnectionTimeout = ''connection timeout''"
| "errorString ErrInvokeFailed = ''hub method invocation failed''"
| "errorString ErrQuestNotFound = ''quest not found''"
| "errorString ErrBundleNotFound = ''bundle not found''"
| "errorString Canceled = ''context canceled''"
| "errorString DeadlineExceeded = ''context deadline exceeded''"
| "errorString (Foreign s) = s"
| "errorString (WrapError msg inner) = msg"

text \<open>\<^verbatim>\<open>errors.Is(err, target)\<close>: the error itself, or one it wraps, is the target.\<close>

fun errors_Is :: "error \<Rightarrow> error \<Rightarrow> bool" where
  "errors_Is (WrapError msg inner) target =
     (WrapError msg inner = target \<or> errors_Is inner target)"
| "errors_Is e target = (e = target)"

text \<open>
  The two shapes of \<^verbatim>\<open>fmt.Errorf\<close> the package uses:
  \<^verbatim>\<open>fmt.Errorf("%w: %s - %v", sentinel, method, cause)\<close> wraps the sentinel and prints the
  cause, and \<^verbatim>\<open>fmt.Errorf(prefix + "%w", err)\<close> wraps \<^verbatim>\<open>err\<close>.
\<close>

definition Errorf_w_s_v :: "error \<Rightarrow> string \<Rightarrow> error \<Rightarrow> error" where
  "Errorf_w_s_v sentinel method cause =
     WrapError (errorString sentinel @ '': '' @ method @ '' - '' @ errorString cause) sentinel"

definition Errorf_w :: "string \<Rightarrow> error \<Rightarrow> error" where
  "Errorf_w prefix err = WrapError (prefix @ errorString err) err"

section \<open>Outcomes of a call\<close>

text \<open>
  A Go call returns, panics (here: a method called on a nil interface value), or blocks
  for ever (a \<^verbatim>\<open>select\<close> none of whose cases becomes ready).
\<close>

datatype 'a outcome = Returns 'a | Panics | Blocks

section \<open>Package context\<close>

text \<open>
  Instants and durations are integers (nanoseconds). A context is what the package reads
  of it: its deadline, if it has one, and the instant at which it is canceled by whoever
  holds its \<^verbatim>\<open>CancelFunc\<close> (or a parent's), if that ever happens. A
  \<^verbatim>\<open>context.Context\<close> variable is an interface value and may be nil: it is a
  \<open>Context option\<close>, and a method called on nil panics.
\<close>

type_synonym Time = int

record Context =
  deadline :: "Time option"
  canceledAt :: "Time option"

definition ctx_Background :: Context where
  "ctx_Background = \<lparr>deadline = None, canceledAt = None\<rparr>"

definition earliest :: "Time option \<Rightarrow> Time option \<Rightarrow> Time option" where
  "earliest a b =
     (case a of
        None \<Rightarrow> b
      | Some x \<Rightarrow> (case b of None \<Rightarrow> Some x | Some y \<Rightarrow> Some (min x y)))"

text \<open>\<^verbatim>\<open>context.WithCancel(parent)\<close>, its \<^verbatim>\<open>CancelFunc\<close> called at \<open>at\<close> (never: \<open>None\<close>).\<close>

definition ctx_WithCancel :: "Context \<Rightarrow> Time option \<Rightarrow> Context" where
  "ctx_WithCancel parent at = parent\<lparr>canceledAt := earliest (canceledAt parent) at\<rparr>"

text \<open>
  \<^verbatim>\<open>context.WithDeadline(parent, d)\<close>: a parent whose deadline is already earlier keeps
  it. \<^verbatim>\<open>context.WithTimeout(parent, t)\<close> is \<^verbatim>\<open>WithDeadline(parent, time.Now().Add(t))\<close>
  and panics on a nil parent.
\<close>

definition withDeadline :: "Context \<Rightarrow> Time \<Rightarrow> Context" where
  "withDeadline p d =
     (case deadline p of
        None \<Rightarrow> p\<lparr>deadline := Some d\<rparr>
      | Some cur \<Rightarrow> if cur < d then p else p\<lparr>deadline := Some d\<rparr>)"

definition withTimeout :: "Context \<Rightarrow> Time \<Rightarrow> int \<Rightarrow> Context" where
  "withTimeout p now t = withDeadline p (now + t)"

definition ctx_WithTimeout :: "Context option \<Rightarrow> Time \<Rightarrow> int \<Rightarrow> Context outcome" where
  "ctx_WithTimeout parent now t =
     (case parent of None \<Rightarrow> Panics | Some p \<Rightarrow> Returns (withTimeout p now t))"

text \<open>\<^verbatim>\<open>ctx.Deadline()\<close>: the deadline and whether there is one.\<close>

definition Deadline :: "Context option \<Rightarrow> Time option outcome" where
  "Deadline ctx = (case ctx of None \<Rightarrow> Panics | Some x \<Rightarrow> Returns (deadline x))"

text \<open>
  The instant at which \<^verbatim>\<open>ctx.Done()\<close> is closed (never: \<open>None\<close>), and what
  \<^verbatim>\<open>ctx.Err()\<close> returns from then on.
\<close>

definition DoneAt :: "Context \<Rightarrow> Time option" where
  "DoneAt ctx = earliest (deadline ctx) (canceledAt ctx)"

definition Err :: "Context \<Rightarrow> error" where
  "Err ctx =
     (case canceledAt ctx of
        None \<Rightarrow> DeadlineExceeded
      | Some t \<Rightarrow>
          (case deadline ctx of
             None \<Rightarrow> Canceled
           | Some d \<Rightarrow> if t < d then Canceled else DeadlineExceeded))"

section \<open>Values, the transport and its effects\<close>

text \<open>
  An \<^verbatim>\<open>interface{}\<close> value that crosses the transport (an argument or a result), as a
  JSON-shaped tree. Transport handles (\<^verbatim>\<open>signalr.Client\<close>), connections and registered
  callbacks are objects; a number names each.
\<close>

datatype any =
    JNull
  | JBool bool
  | JNumber int
  | JString string
  | JArray "any list"
  | JObject "(string \<times> any) list"

type_synonym handle = nat
type_synonym handler = nat

text \<open>\<^verbatim>\<open>signalr.InvokeResult\<close> and \<^verbatim>\<open>signalr.ClientState\<close>.\<close>

record InvokeResult =
  Value :: any
  Error :: "error option"

datatype ClientState = ClientCreated | ClientConnecting | ClientConnected | ClientClosed

text \<open>
  What the transport does with one \<^verbatim>\<open>Invoke\<close>: it delivers a result on the returned
  channel at some instant, or never does.
\<close>

datatype Reply = Delivered Time InvokeResult | Silent

record ReadyStatus =
  Initialized :: bool
  Version :: string
  Refreshed :: bool

datatype level = LevelDebug | LevelInfo | LevelWarn | LevelError

text \<open>
  The effects a call of this package has on the world outside the \<^verbatim>\<open>Client\<close> struct, in
  order: calls of the logger (level and format string), calls of the signalr package and of a
  transport handle, and goroutines started.
\<close>

datatype event =
    Log level string
  | NewHTTPConnection string "Time option"
  | SignalrNewClient nat
  | ObserveStateChanged handle
  | CancelObserve handle
  | GoWatchStates handle
  | Start handle
  | Stop handle
  | TransportInvoke handle string "any list"
  | GoReady handler ReadyStatus
  | GoDisconnect handler "error option"

section \<open>The client\<close>

text \<open>
  \<^verbatim>\<open>type Client struct\<close>. The \<^verbatim>\<open>cancel\<close> field (the \<^verbatim>\<open>CancelFunc\<close> of \<open>ctx\<close>) is
  never called by the package and the mutex is the atomicity of each function below; a nil
  \<^verbatim>\<open>Logger\<close> is not modelled.
\<close>

datatype Logger = DefaultLogger | UserLogger nat

record Client =
  connection :: "handle option"
  url :: string
  ctx :: Context
  timeout :: int
  logger :: Logger
  connected :: bool
  readyHandlers :: "handler list"
  disconnectHandlers :: "handler list"
  observeCancel :: "handle option"

datatype ClientOption = WithTimeout int | WithLogger Logger

fun applyOption :: "Client \<Rightarrow> ClientOption \<Rightarrow> Client" where
  "applyOption c (WithTimeout t) = c\<lparr>timeout := t\<rparr>"
| "applyOption c (WithLogger l) = c\<lparr>logger := l\<rparr>"

definition second :: int where
  "second = 1000000000"

definition NewClient :: "string \<Rightarrow> ClientOption list \<Rightarrow> Client" where
  "NewClient u opts =
     foldl applyOption
       \<lparr>connection = None, url = u, ctx = ctx_WithCancel ctx_Background None,
        timeout = 30 * second, logger = DefaultLogger, connected = False,
        readyHandlers = [], disconnectHandlers = [], observeCancel = None\<rparr>
       opts"

definition IsConnected :: "Client \<Rightarrow> bool" where
  "IsConnected c = connected c"

definition OnReady :: "Client \<Rightarrow> handler \<Rightarrow> Client" where
  "OnReady c h = c\<lparr>readyHandlers := readyHandlers c @ [h]\<rparr>"

definition OnDisconnect :: "Client \<Rightarrow> handler \<Rightarrow> Client" where
  "OnDisconnect c h = c\<lparr>disconnectHandlers := disconnectHandlers c @ [h]\<rparr>"

text \<open>\<^verbatim>\<open>hubReceiver.Ready\<close>: log, copy the ready handlers, start each in a goroutine.\<close>

definition Ready :: "Client \<Rightarrow> ReadyStatus \<Rightarrow> event list" where
  "Ready c status =
     (let handlers = [] @ readyHandlers c
      in Log LevelInfo ''Service ready - Version: %s, Initialized: %v''
           # map (\<lambda>h. GoReady h status) handlers)"

subsection \<open>Connect and Disconnect\<close>

text \<open>
  \<^verbatim>\<open>Connect\<close>, given what \<^verbatim>\<open>signalr.NewHTTPConnection\<close> and \<^verbatim>\<open>signalr.NewClient\<close>
  return (an error, or the new object). It returns the error (\<open>None\<close> is nil), the client
  and the effects.
\<close>

definition Connect ::
  "Client \<Rightarrow> Time \<Rightarrow> error + nat \<Rightarrow> error + handle \<Rightarrow> error option \<times> Client \<times> event list" where
  "Connect c now httpConn newClient =
     (if connected c then (None, c, [])
      else
        (let creationCtx = withTimeout (ctx c) now (timeout c)
         in case httpConn of
              Inl err \<Rightarrow>
                (Some (Errorf_w ''failed to create connection: '' err), c,
                 [NewHTTPConnection (url c) (deadline creationCtx),
                  Log LevelError ''Failed to create SignalR connection: %v''])
            | Inr conn \<Rightarrow>
                (case newClient of
                   Inl err \<Rightarrow>
                     (Some (Errorf_w ''failed to create client: '' err), c,
                      [NewHTTPConnection (url c) (deadline creationCtx),
                       SignalrNewClient conn,
                       Log LevelError ''Failed to create SignalR client: %v''])
                 | Inr client \<Rightarrow>
                     (None, c\<lparr>connection := Some client, observeCancel := Some client\<rparr>,
                      [NewHTTPConnection (url c) (deadline creationCtx),
                       SignalrNewClient conn,
                       ObserveStateChanged client,
                       GoWatchStates client,
                       Start client,
                       Log LevelInfo ''Connecting to Hub at %s'']))))"

definition Disconnect :: "Client \<Rightarrow> error option \<times> Client \<times> event list" where
  "Disconnect c =
     (case connection c of
        None \<Rightarrow> (None, c\<lparr>connected := False\<rparr>, [])
      | Some conn \<Rightarrow>
          (let (c1, evs1) =
                 (case observeCancel c of
                    Some h \<Rightarrow> (c\<lparr>observeCancel := None\<rparr>, [CancelObserve h])
                  | None \<Rightarrow> (c, []))
           in (None, c1\<lparr>connected := False\<rparr>,
               evs1 @ [Stop conn, Log LevelInfo ''Disconnected from Hub''])))"

subsection \<open>The state-watch loop\<close>

text \<open>
  One iteration of \<^verbatim>\<open>watchStates\<close> on a received state; \<open>connErr h\<close> is what
  \<^verbatim>\<open>Err()\<close> of handle \<open>h\<close> returns. The loop reads \<^verbatim>\<open>c.connection\<close> at that moment.
\<close>

definition onState ::
  "Client \<Rightarrow> (handle \<Rightarrow> error option) \<Rightarrow> ClientState \<Rightarrow> (Client \<times> event list) outcome" where
  "onState c connErr state =
     (case state of
        ClientConnected \<Rightarrow>
          Returns (c\<lparr>connected := True\<rparr>, [Log LevelInfo ''Connected to Hub''])
      | ClientClosed \<Rightarrow>
          (let c1 = c\<lparr>connected := False\<rparr>
           in case connection c1 of
                None \<Rightarrow> Panics
              | Some conn \<Rightarrow>
                  (let err0 = connErr conn;
                       err = (if err0 = None then Some ErrNotConnected else err0);
                       handlers = [] @ disconnectHandlers c1
                   in Returns (c1, Log LevelInfo ''Disconnected from Hub: %v''
                                     # map (\<lambda>h. GoDisconnect h err) handlers)))
      | ClientCreated \<Rightarrow> Returns (c, [])
      | ClientConnecting \<Rightarrow> Returns (c, []))"

text \<open>\<^verbatim>\<open>for state := range stateCh\<close> over the states received until the channel is closed.\<close>

fun watchStates ::
  "Client \<Rightarrow> (handle \<Rightarrow> error option) \<Rightarrow> ClientState list \<Rightarrow> (Client \<times> event list) outcome" where
  "watchStates c connErr [] = Returns (c, [])"
| "watchStates c connErr (state # rest) =
     (case onState c connErr state of
        Returns (c1, evs1) \<Rightarrow>
          (case watchStates c1 connErr rest of
             Returns (c2, evs2) \<Rightarrow> Returns (c2, evs1 @ evs2)
           | Panics \<Rightarrow> Panics
           | Blocks \<Rightarrow> Blocks)
      | Panics \<Rightarrow> Panics
      | Blocks \<Rightarrow> Blocks)"

subsection \<open>invoke\<close>

text \<open>
  Lines 278 to 286 of \<^verbatim>\<open>invoke\<close>: a nil context becomes the background context, and a
  context without a deadline gets one from the configured timeout.
\<close>

definition effectiveCtx :: "Client \<Rightarrow> Time \<Rightarrow> Context option \<Rightarrow> Context option outcome" where
  "effectiveCtx c now ctx0 =
     (let ctx1 = (if ctx0 = None then Some ctx_Background else ctx0)
      in case Deadline ctx1 of
           Panics \<Rightarrow> Panics
         | Blocks \<Rightarrow> Blocks
         | Returns None \<Rightarrow>
             (case ctx_WithTimeout ctx1 now (timeout c) of
                Returns ctx2 \<Rightarrow> Returns (Some ctx2)
              | Panics \<Rightarrow> Panics
              | Blocks \<Rightarrow> Blocks)
         | Returns (Some d) \<Rightarrow> Returns ctx1)"

text \<open>
  The \<^verbatim>\<open>select\<close> over the result channel and \<^verbatim>\<open>ctx.Done()\<close>, entered at \<open>now\<close>: the
  case that becomes ready first is taken; when both are ready at the same instant Go
  chooses one of them, here as \<open>pick\<close> says (\<open>True\<close>: the result channel).
\<close>

datatype selected = FromCh InvokeResult | FromDone | Neither

definition select2 :: "Time \<Rightarrow> Reply \<Rightarrow> Context \<Rightarrow> bool \<Rightarrow> selected" where
  "select2 now reply cx pick =
     (case reply of
        Silent \<Rightarrow> (case DoneAt cx of None \<Rightarrow> Neither | Some d \<Rightarrow> FromDone)
      | Delivered t res \<Rightarrow>
          (case DoneAt cx of
             None \<Rightarrow> FromCh res
           | Some d \<Rightarrow>
               if max now t < max now d then FromCh res
               else if max now d < max now t then FromDone
               else if pick then FromCh res
               else FromDone))"

text \<open>
  \<^verbatim>\<open>invoke\<close>: the pair \<^verbatim>\<open>(interface{}, error)\<close> it returns is \<open>Inl err\<close> for
  \<^verbatim>\<open>(nil, err)\<close> and \<open>Inr v\<close> for \<^verbatim>\<open>(v, nil)\<close>.
\<close>

definition invoke ::
  "Client \<Rightarrow> Time \<Rightarrow> Context option \<Rightarrow> string \<Rightarrow> any list \<Rightarrow> Reply \<Rightarrow> bool
     \<Rightarrow> (error + any) outcome \<times> event list" where
  "invoke c now ctx0 method args reply pick =
     (if \<not> IsConnected c then (Returns (Inl ErrNotConnected), [])
      else
        (case effectiveCtx c now ctx0 of
           Panics \<Rightarrow> (Panics, [])
         | Blocks \<Rightarrow> (Blocks, [])
         | Returns ctx1 \<Rightarrow>
             (case connection c of
                None \<Rightarrow> (Panics, [])
              | Some conn \<Rightarrow>
                  (case ctx1 of
                     None \<Rightarrow> (Panics, [TransportInvoke conn method args])
                   | Some cx \<Rightarrow>
                       (case select2 now reply cx pick of
                          FromCh res \<Rightarrow>
                            (case Error res of
                               Some e \<Rightarrow>
                                 (Returns (Inl (Errorf_w_s_v ErrInvokeFailed method e)),
                                  [TransportInvoke conn method args,
                                   Log LevelError ''Method %s failed: %v''])
                             | None \<Rightarrow>
                                 (Returns (Inr (Value res)),
                                  [TransportInvoke conn method args]))
                        | FromDone \<Rightarrow>
                            (Returns (Inl (Errorf_w_s_v ErrConnectionTimeout method (Err cx))),
                             [TransportInvoke conn method args])
                        | Neither \<Rightarrow> (Blocks, [TransportInvoke conn method args]))))))"

subsection \<open>Decoding and the typed methods\<close>

text \<open>
  \<^verbatim>\<open>json.Marshal\<close> and \<^verbatim>\<open>json.Unmarshal\<close> into a target of type \<open>'a\<close> belong to Go's
  library: \<^verbatim>\<open>unmarshalResult\<close> takes them as a parameter.
\<close>

record 'a codec =
  Marshal :: "any \<Rightarrow> error + string"
  Unmarshal :: "string \<Rightarrow> error + 'a"

definition unmarshalResult :: "'a codec \<Rightarrow> any \<Rightarrow> error + 'a" where
  "unmarshalResult json result =
     (case Marshal json result of
        Inl err \<Rightarrow> Inl (Errorf_w ''failed to marshal result: '' err)
      | Inr b \<Rightarrow>
          (case Unmarshal json b of
             Inl err \<Rightarrow> Inl (Errorf_w ''failed to unmarshal result: '' err)
           | Inr out \<Rightarrow> Inr out))"

text \<open>The payload structs of \<^verbatim>\<open>models.go\<close>; a \<^verbatim>\<open>time.Time\<close> is its instant.\<close>

record ServiceStatus =
  Initialized :: bool
  Version :: string
  Timestamp :: Time

record CacheResult =
  Success :: bool
  Version :: string
  KeysCleared :: int
  Patterns :: "string list"
  Timestamp :: Time

record BaseQuest =
  Objectives :: "(string \<times> any) list"
  Rewards :: "(string \<times> any) list"
  Count :: int

record ChallengeBundleReward =
  TemplateID :: string
  Quantity :: int

record ChallengeBundleObjective =
  BackendName :: string
  Count :: int
  Stage :: int

record ChallengeBundleOptions =
  IsBattlePass :: bool
  IsOvertime :: bool
  GrantWithPass :: bool
  ProgressOnBattlePassPurchased :: bool
  AthenaSeasonProgress :: bool
  BattlePassProgress :: bool
  GainAthenaSeasonXP :: bool

record ChallengeBundleObject =
  QuestDefinition :: string
  Rarity :: string
  Rewards :: "ChallengeBundleReward list"
  Objectives :: "ChallengeBundleObjective list"
  Options :: ChallengeBundleOptions

record BundleCompletionReward =
  TemplateID :: string
  Quantity :: int

record AthenaChallengeBundle =
  TemplateID :: string
  ChallengeBundleSchedule :: string
  Objects :: "ChallengeBundleObject list"
  Amount :: int
  Rarity :: string
  CompletionRewards :: "BundleCompletionReward list"

record ChallengeBundleSchedule =
  TemplateID :: string
  QuestBundle :: string

text \<open>
  What every typed method does with the pair \<^verbatim>\<open>invoke\<close> returned: an error is passed
  on, a value is decoded into the method's result type.
\<close>

definition decoded ::
  "'a codec \<Rightarrow> (error + any) outcome \<times> event list \<Rightarrow> (error + 'a) outcome \<times> event list" where
  "decoded json r =
     (case r of
        (Returns (Inl err), evs) \<Rightarrow> (Returns (Inl err), evs)
      | (Returns (Inr val), evs) \<Rightarrow> (Returns (unmarshalResult json val), evs)
      | (Panics, evs) \<Rightarrow> (Panics, evs)
      | (Blocks, evs) \<Rightarrow> (Blocks, evs))"

definition GetServiceStatus ::
  "Client \<Rightarrow> Time \<Rightarrow> Context option \<Rightarrow> Reply \<Rightarrow> bool \<Rightarrow> ServiceStatus codec
     \<Rightarrow> (error + ServiceStatus) outcome \<times> event list" where
  "GetServiceStatus c now ctx0 reply pick json =
     decoded json (invoke c now ctx0 ''GetServiceStatus'' [] reply pick)"

definition GetDailyQuests ::
  "Client \<Rightarrow> Time \<Rightarrow> Context option \<Rightarrow> Reply \<Rightarrow> bool \<Rightarrow> (string \<rightharpoonup> BaseQuest) codec
     \<Rightarrow> (error + (string \<rightharpoonup> BaseQuest)) outcome \<times> event list" where
  "GetDailyQuests c now ctx0 reply pick json =
     decoded json (invoke c now ctx0 ''GetDailyQuests'' [] reply pick)"

definition GetDailyQuest ::
  "Client \<Rightarrow> Time \<Rightarrow> Context option \<Rightarrow> string \<Rightarrow> Reply \<Rightarrow> bool \<Rightarrow> BaseQuest codec
     \<Rightarrow> (error + BaseQuest) outcome \<times> event list" where
  "GetDailyQuest c now ctx0 questID reply pick json =
     (if questID = '''' then (Returns (Inl ErrInvalidQuestID), [])
      else decoded json (invoke c now ctx0 ''GetDailyQuest'' [JString questID] reply pick))"

definition GetChallengeBundles ::
  "Client \<Rightarrow> Time \<Rightarrow> Context option \<Rightarrow> Reply \<Rightarrow> bool \<Rightarrow> AthenaChallengeBundle list codec
     \<Rightarrow> (error + AthenaChallengeBundle list) outcome \<times> event list" where
  "GetChallengeBundles c now ctx0 reply pick json =
     decoded json (invoke c now ctx0 ''GetChallengeBundles'' [] reply pick)"

definition GetChallengeBundle ::
  "Client \<Rightarrow> Time \<Rightarrow> Context option \<Rightarrow> string \<Rightarrow> Reply \<Rightarrow> bool \<Rightarrow> AthenaChallengeBundle codec
     \<Rightarrow> (error + AthenaChallengeBundle) outcome \<times> event list" where
  "GetChallengeBundle c now ctx0 templateID reply pick json =
     (if templateID = '''' then (Returns (Inl ErrInvalidTemplateID), [])
      else decoded json (invoke c now ctx0 ''GetChallengeBundle'' [JString templateID] reply pick))"

definition GetChallengeBundleSchedules ::
  "Client \<Rightarrow> Time \<Rightarrow> Context option \<Rightarrow> Reply \<Rightarrow> bool \<Rightarrow> ChallengeBundleSchedule list codec
     \<Rightarrow> (error + ChallengeBundleSchedule list) outcome \<times> event list" where
  "GetChallengeBundleSchedules c now ctx0 reply pick json =
     decoded json (invoke c now ctx0 ''GetChallengeBundleSchedules'' [] reply pick)"

definition ClearCache ::
  "Client \<Rightarrow> Time \<Rightarrow> Context option \<Rightarrow> Reply \<Rightarrow> bool \<Rightarrow> CacheResult codec
     \<Rightarrow> (error + CacheResult) outcome \<times> event list" where
  "ClearCache c now ctx0 reply pick json =
     decoded json (invoke c now ctx0 ''ClearCache'' [] reply pick)"

text \<open>\<^verbatim>\<open>RefreshCache\<close> returns only the error of \<^verbatim>\<open>invoke\<close> (\<open>None\<close> is nil).\<close>

definition RefreshCache ::
  "Client \<Rightarrow> Time \<Rightarrow> Context option \<Rightarrow> Reply \<Rightarrow> bool \<Rightarrow> error option outcome \<times> event list" where
  "RefreshCache c now ctx0 reply pick =
     (case invoke c now ctx0 ''RefreshCache'' [] reply pick of
        (Returns (Inl err), evs) \<Rightarrow> (Returns (Some err), evs)
      | (Returns (Inr val), evs) \<Rightarrow> (Returns None, evs)
      | (Panics, evs) \<Rightarrow> (Panics, evs)
      | (Blocks, evs) \<Rightarrow> (Blocks, evs))"

section \<open>A client in its world\<close>

text \<open>
  The client together with the effects it has had so far, and the things that can happen
  to it: a call of its API, a state the transport reports to a running watch loop
  (with what \<^verbatim>\<open>c.connection.Err()\<close> returns at that moment), a Ready message pushed
  by the hub. A step that cannot happen (a state reported though no watch loop was ever
  started) or that panics gives \<open>None\<close>.
\<close>

record World =
  client :: Client
  trace :: "event list"

datatype call =
    CallConnect Time "error + nat" "error + handle"
  | CallDisconnect
  | CallOnReady handler
  | CallOnDisconnect handler
  | StateReported ClientState "error option"
  | ReadyPushed ReadyStatus

fun isGoWatchStates :: "event \<Rightarrow> bool" where
  "isGoWatchStates (GoWatchStates h) = True"
| "isGoWatchStates e = False"

definition newWorld :: "string \<Rightarrow> ClientOption list \<Rightarrow> World" where
  "newWorld u opts = \<lparr>client = NewClient u opts, trace = []\<rparr>"

fun step :: "World \<Rightarrow> call \<Rightarrow> World option" where
  "step w (CallConnect now httpConn newClient) =
     (case Connect (client w) now httpConn newClient of
        (r, c1, evs) \<Rightarrow> Some \<lparr>client = c1, trace = trace w @ evs\<rparr>)"
| "step w CallDisconnect =
     (case Disconnect (client w) of
        (r, c1, evs) \<Rightarrow> Some \<lparr>client = c1, trace = trace w @ evs\<rparr>)"
| "step w (CallOnReady h) = Some (w\<lparr>client := OnReady (client w) h\<rparr>)"
| "step w (CallOnDisconnect h) = Some (w\<lparr>client := OnDisconnect (client w) h\<rparr>)"
| "step w (StateReported state lastErr) =
     (if list_ex isGoWatchStates (trace w)
      then (case onState (client w) (\<lambda>h. lastErr) state of
              Returns (c1, evs) \<Rightarrow> Some \<lparr>client = c1, trace = trace w @ evs\<rparr>
            | Panics \<Rightarrow> None
            | Blocks \<Rightarrow> None)
      else None)"
| "step w (ReadyPushed status) =
     (if list_ex isGoWatchStates (trace w)
      then Some (w\<lparr>trace := trace w @ Ready (client w) status\<rparr>)
      else None)"

fun run :: "World \<Rightarrow> call list \<Rightarrow> World option" where
  "run w [] = Some w"
| "run w (x # xs) = (case step w x of None \<Rightarrow> None | Some w1 \<Rightarrow> run w1 xs)"

text \<open>
  Read off a trace: the transport handles that were started and not stopped since, and
  the watch loops that were started and whose subscription was not canceled since.
\<close>

fun afterEvent :: "handle list \<times> handle list \<Rightarrow> event \<Rightarrow> handle list \<times> handle list" where
  "afterEvent (hs, ls) (Start h) = (hs @ [h], ls)"
| "afterEvent (hs, ls) (Stop h) = (removeAll h hs, ls)"
| "afterEvent (hs, ls) (GoWatchStates h) = (hs, ls @ [h])"
| "afterEvent (hs, ls) (CancelObserve h) = (hs, removeAll h ls)"
| "afterEvent (hs, ls) e = (hs, ls)"

definition activeHandles :: "event list \<Rightarrow> handle list" where
  "activeHandles evs = fst (foldl afterEvent ([], []) evs)"

definition watchLoops :: "event list \<Rightarrow> handle list" where
  "watchLoops evs = snd (foldl afterEvent ([], []) evs)"



text \<open>
  The client of \<^verbatim>\<open>tests/main.go\<close> (one ready handler, one disconnect handler, a timeout
  of thirty seconds) once \<^verbatim>\<open>Connect\<close> has installed transport handle 1 and the transport
  has reported \<^verbatim>\<open>ClientConnected\<close>.
\<close>

definition liveClient :: Client where
  "liveClient =
     \<lparr>connection = Some 1, url = ''http://localhost:5294/hub'', ctx = ctx_Background,
      timeout = 30 * second, logger = DefaultLogger, connected = True,
      readyHandlers = [0], disconnectHandlers = [1], observeCancel = Some 1\<rparr>"


section \<open>Facts about the model\<close>

lemma errors_Is_refl: "errors_Is e e"
  by (cases e) simp_all

lemma errors_Is_Errorf_w: "errors_Is (Errorf_w p e) e"
  by (simp add: Errorf_w_def errors_Is_refl)

lemma Errorf_w_s_v_wraps:
  "errors_Is (Errorf_w_s_v s m e) s \<and>
   errorString (Errorf_w_s_v s m e) = errorString s @ '': '' @ m @ '' - '' @ errorString e"
  by (simp add: Errorf_w_s_v_def errors_Is_refl)

lemma effectiveCtx_Some:
  "effectiveCtx c now (Some x) =
     Returns (Some (case deadline x of
                      None \<Rightarrow> x\<lparr>deadline := Some (now + timeout c)\<rparr>
                    | Some d \<Rightarrow> x))"
  by (simp add: effectiveCtx_def Deadline_def ctx_WithTimeout_def withTimeout_def
      withDeadline_def split: option.splits)

lemma effectiveCtx_None:
  "effectiveCtx c now None =
     Returns (Some (ctx_Background\<lparr>deadline := Some (now + timeout c)\<rparr>))"
  by (simp add: effectiveCtx_def Deadline_def ctx_WithTimeout_def withTimeout_def
      withDeadline_def ctx_Background_def)


lemma effectiveCtx_has_deadline:
  "\<exists>cx d. effectiveCtx c now ctx0 = Returns (Some cx) \<and> deadline cx = Some d"
  by (cases ctx0) (auto simp: effectiveCtx_Some effectiveCtx_None split: option.splits)

lemma DoneAt_deadline: "deadline cx = Some d \<Longrightarrow> \<exists>dn. DoneAt cx = Some dn \<and> dn \<le> d"
  by (auto simp: DoneAt_def earliest_def split: option.splits)

lemma DoneAt_uncanceled: "canceledAt cx = None \<Longrightarrow> DoneAt cx = deadline cx"
  by (auto simp: DoneAt_def earliest_def split: option.splits)

lemma Err_cases: "Err cx = Canceled \<or> Err cx = DeadlineExceeded"
  by (auto simp: Err_def split: option.splits)

lemma Err_uncanceled: "canceledAt cx = None \<Longrightarrow> Err cx = DeadlineExceeded"
  by (simp add: Err_def)

lemma invoke_connected:
  assumes "connected c" "connection c = Some h" "effectiveCtx c now ctx0 = Returns (Some cx)"
  shows "invoke c now ctx0 m args reply pick =
    (case select2 now reply cx pick of
       FromCh res \<Rightarrow>
         (case Error res of
            Some e \<Rightarrow> (Returns (Inl (Errorf_w_s_v ErrInvokeFailed m e)),
                        [TransportInvoke h m args, Log LevelError ''Method %s failed: %v''])
          | None \<Rightarrow> (Returns (Inr (Value res)), [TransportInvoke h m args]))
     | FromDone \<Rightarrow> (Returns (Inl (Errorf_w_s_v ErrConnectionTimeout m (Err cx))),
                     [TransportInvoke h m args])
     | Neither \<Rightarrow> (Blocks, [TransportInvoke h m args]))"
  using assms by (simp add: invoke_def IsConnected_def)



lemmas invoke_eval =
  invoke_def IsConnected_def effectiveCtx_def Deadline_def ctx_WithTimeout_def
  withTimeout_def withDeadline_def select2_def DoneAt_def earliest_def Err_def
  Errorf_w_s_v_def liveClient_def second_def ctx_Background_def

subsection \<open>The handle is kept\<close>










section \<open>Calls while disconnected\<close>

text \<open>
  C1. When the connected flag is false, \<^verbatim>\<open>invoke\<close> returns \<^verbatim>\<open>ErrNotConnected\<close> for every
  method name and argument list, and so does every typed method that reaches \<^verbatim>\<open>invoke\<close>
  (the two methods that take an identifier reach it when the identifier is not empty);
  nothing is submitted to the transport handle: the call has no effect at all.
\<close>

theorem invoke_disconnected:
  "\<not> connected c \<Longrightarrow>
     invoke c now ctx0 m args reply pick = (Returns (Inl ErrNotConnected), []) \<and>
     GetServiceStatus c now ctx0 reply pick j1 = (Returns (Inl ErrNotConnected), []) \<and>
     GetDailyQuests c now ctx0 reply pick j2 = (Returns (Inl ErrNotConnected), []) \<and>
     (questID \<noteq> '''' \<longrightarrow>
        GetDailyQuest c now ctx0 questID reply pick j3 = (Returns (Inl ErrNotConnected), [])) \<and>
     GetChallengeBundles c now ctx0 reply pick j4 = (Returns (Inl ErrNotConnected), []) \<and>
     (templateID \<noteq> '''' \<longrightarrow>
        GetChallengeBundle c now ctx0 templateID reply pick j5 =
          (Returns (Inl ErrNotConnected), [])) \<and>
     GetChallengeBundleSchedules c now ctx0 reply pick j6 = (Returns (Inl ErrNotConnected), []) \<and>
     ClearCache c now ctx0 reply pick j7 = (Returns (Inl ErrNotConnected), []) \<and>
     RefreshCache c now ctx0 reply pick = (Returns (Some ErrNotConnected), [])"
  by (simp add: invoke_def IsConnected_def decoded_def GetServiceStatus_def GetDailyQuests_def
      GetDailyQuest_def GetChallengeBundles_def GetChallengeBundle_def
      GetChallengeBundleSchedules_def ClearCache_def RefreshCache_def)

theorem invoke_disconnected_witness:
  "\<not> connected (NewClient ''http://localhost:5294/hub'' [WithTimeout (30 * second)]) \<and>
   invoke (NewClient ''http://localhost:5294/hub'' [WithTimeout (30 * second)])
     0 None ''GetServiceStatus'' [] (Delivered 1 \<lparr>Value = JNull, Error = None\<rparr>) True =
     (Returns (Inl ErrNotConnected), []) \<and>
   GetDailyQuest (NewClient ''http://localhost:5294/hub'' [WithTimeout (30 * second)])
     0 None ''q1'' (Delivered 1 \<lparr>Value = JNull, Error = None\<rparr>) True
     \<lparr>Marshal = (\<lambda>v. Inr ''null''), Unmarshal = (\<lambda>b. Inl (Foreign ''unexpected end''))\<rparr> =
     (Returns (Inl ErrNotConnected), []) \<and>
   RefreshCache (NewClient ''http://localhost:5294/hub'' [WithTimeout (30 * second)])
     0 None (Delivered 1 \<lparr>Value = JNull, Error = None\<rparr>) True =
     (Returns (Some ErrNotConnected), [])"
  using invoke_disconnected
    [where c = "NewClient ''http://localhost:5294/hub'' [WithTimeout (30 * second)]"
       and now = 0 and ?ctx0.0 = None and m = "''GetServiceStatus''" and args = "[]"
       and reply = "Delivered 1 \<lparr>Value = JNull, Error = None\<rparr>" and pick = True
       and questID = "''q1''"
       and ?j3.0 = "\<lparr>Marshal = (\<lambda>v. Inr ''null''),
                     Unmarshal = (\<lambda>b. Inl (Foreign ''unexpected end''))\<rparr>"]
  by (simp add: NewClient_def)

section \<open>Empty identifiers\<close>

text \<open>
  C7. Whatever the state of the client (connected or not, with or without a transport
  handle), \<^verbatim>\<open>GetDailyQuest\<close> called with the empty string returns
  \<^verbatim>\<open>ErrInvalidQuestID\<close> and \<^verbatim>\<open>GetChallengeBundle\<close> called with the empty string returns
  \<^verbatim>\<open>ErrInvalidTemplateID\<close>, with no effect: neither the connected flag is consulted nor
  the transport called.
\<close>

theorem empty_identifier_rejected:
  "GetDailyQuest c now ctx0 '''' reply pick j = (Returns (Inl ErrInvalidQuestID), []) \<and>
   GetChallengeBundle c now ctx0 '''' reply pick j' = (Returns (Inl ErrInvalidTemplateID), [])"
  by (simp add: GetDailyQuest_def GetChallengeBundle_def)

section \<open>The effective deadline\<close>

text \<open>
  C2. A context that carries no deadline is given the deadline "the instant of the call
  plus the configured timeout" and is otherwise left as it is; a context that carries a
  deadline is used unchanged. The deadline \<open>D\<close> so derived is the one \<^verbatim>\<open>invoke\<close> waits
  for: on a connected client whose caller never cancels the context, a reply delivered
  before \<open>D\<close> is what \<^verbatim>\<open>invoke\<close> returns, and with a reply delivered after \<open>D\<close>, or with no
  reply at all, \<^verbatim>\<open>invoke\<close> returns the timeout error carrying "context deadline exceeded".
\<close>

theorem invoke_effective_deadline:
  "(deadline x = None \<longrightarrow>
      (\<exists>cx. effectiveCtx c now (Some x) = Returns (Some cx) \<and>
            deadline cx = Some (now + timeout c) \<and> canceledAt cx = canceledAt x)) \<and>
   (deadline x = Some d \<longrightarrow> effectiveCtx c now (Some x) = Returns (Some x)) \<and>
   (connected c \<and> connection c = Some h \<and> canceledAt x = None \<and>
    D = (case deadline x of None \<Rightarrow> now + timeout c | Some d' \<Rightarrow> d') \<longrightarrow>
      (now < D \<and> t < D \<longrightarrow>
         fst (invoke c now (Some x) m args (Delivered t res) pick) =
           Returns (case Error res of
                      None \<Rightarrow> Inr (Value res)
                    | Some e \<Rightarrow> Inl (Errorf_w_s_v ErrInvokeFailed m e))) \<and>
      (now < t \<and> D < t \<longrightarrow>
         fst (invoke c now (Some x) m args (Delivered t res) pick) =
           Returns (Inl (Errorf_w_s_v ErrConnectionTimeout m DeadlineExceeded))) \<and>
      fst (invoke c now (Some x) m args Silent pick) =
        Returns (Inl (Errorf_w_s_v ErrConnectionTimeout m DeadlineExceeded)))"
proof (intro conjI impI)
  assume "deadline x = None"
  then show "\<exists>cx. effectiveCtx c now (Some x) = Returns (Some cx) \<and>
            deadline cx = Some (now + timeout c) \<and> canceledAt cx = canceledAt x"
    by (simp add: effectiveCtx_Some)
next
  assume "deadline x = Some d"
  then show "effectiveCtx c now (Some x) = Returns (Some x)"
    by (simp add: effectiveCtx_Some)
next
  assume a: "connected c \<and> connection c = Some h \<and> canceledAt x = None \<and>
    D = (case deadline x of None \<Rightarrow> now + timeout c | Some d' \<Rightarrow> d')"
  define cx where
    "cx = (case deadline x of None \<Rightarrow> x\<lparr>deadline := Some (now + timeout c)\<rparr> | Some d \<Rightarrow> x)"
  have eff: "effectiveCtx c now (Some x) = Returns (Some cx)"
    by (simp add: effectiveCtx_Some cx_def)
  have dl: "deadline cx = Some D" and un: "canceledAt cx = None"
    using a by (auto simp: cx_def split: option.splits)
  have dn: "DoneAt cx = Some D" and er: "Err cx = DeadlineExceeded"
    using dl un by (simp_all add: DoneAt_uncanceled Err_uncanceled)
  note inv = invoke_connected [OF _ _ eff, of h m args _ pick]
  {
    assume "now < D \<and> t < D"
    then have "select2 now (Delivered t res) cx pick = FromCh res"
      by (simp add: select2_def dn)
    then show "fst (invoke c now (Some x) m args (Delivered t res) pick) =
           Returns (case Error res of
                      None \<Rightarrow> Inr (Value res)
                    | Some e \<Rightarrow> Inl (Errorf_w_s_v ErrInvokeFailed m e))"
      using a by (simp add: inv split: option.splits)
  }
  {
    assume "now < t \<and> D < t"
    then have "select2 now (Delivered t res) cx pick = FromDone"
      by (auto simp: select2_def dn)
    then show "fst (invoke c now (Some x) m args (Delivered t res) pick) =
           Returns (Inl (Errorf_w_s_v ErrConnectionTimeout m DeadlineExceeded))"
      using a by (simp add: inv er)
  }
  have "select2 now Silent cx pick = FromDone"
    by (simp add: select2_def dn)
  then show "fst (invoke c now (Some x) m args Silent pick) =
        Returns (Inl (Errorf_w_s_v ErrConnectionTimeout m DeadlineExceeded))"
    using a by (simp add: inv er)
qed

theorem invoke_effective_deadline_witness:
  "connected liveClient \<and> connection liveClient = Some 1 \<and> timeout liveClient = 30 * second \<and>
   effectiveCtx liveClient 0 (Some \<lparr>deadline = None, canceledAt = None\<rparr>) =
     Returns (Some \<lparr>deadline = Some (30 * second), canceledAt = None\<rparr>) \<and>
   fst (invoke liveClient 0 (Some \<lparr>deadline = None, canceledAt = None\<rparr>) ''GetServiceStatus'' []
          (Delivered (20 * second) \<lparr>Value = JBool True, Error = None\<rparr>) False) =
     Returns (Inr (JBool True)) \<and>
   effectiveCtx liveClient 0 (Some \<lparr>deadline = Some (10 * second), canceledAt = None\<rparr>) =
     Returns (Some \<lparr>deadline = Some (10 * second), canceledAt = None\<rparr>) \<and>
   fst (invoke liveClient 0 (Some \<lparr>deadline = Some (10 * second), canceledAt = None\<rparr>)
          ''GetServiceStatus'' []
          (Delivered (20 * second) \<lparr>Value = JBool True, Error = None\<rparr>) True) =
     Returns (Inl (WrapError
       ''connection timeout: GetServiceStatus - context deadline exceeded''
       ErrConnectionTimeout))"
  using
    invoke_effective_deadline
      [where x = "\<lparr>deadline = None, canceledAt = None\<rparr>" and c = liveClient and now = 0
         and h = 1 and D = "30 * second" and t = "20 * second"
         and m = "''GetServiceStatus''" and args = "[]"
         and res = "\<lparr>Value = JBool True, Error = None\<rparr>" and pick = False]
    invoke_effective_deadline
      [where x = "\<lparr>deadline = Some (10 * second), canceledAt = None\<rparr>" and c = liveClient
         and now = 0 and d = "10 * second" and h = 1 and D = "10 * second"
         and t = "20 * second" and m = "''GetServiceStatus''" and args = "[]"
         and res = "\<lparr>Value = JBool True, Error = None\<rparr>" and pick = True]
  by (simp add: liveClient_def second_def Errorf_w_s_v_def effectiveCtx_Some)

section \<open>How a connected call ends\<close>

text \<open>
  C3, as stated, does not hold of the code. A caller cancels its context at instant 5;
  the context carries no deadline, so the effective deadline is thirty seconds away; the transport
  delivers a result without a remote error at instant 10, long before that deadline.
  No remote error was reported and no deadline has elapsed, yet \<^verbatim>\<open>invoke\<close> does not
  return the raw result: it returns the timeout error, carrying "context canceled".
\<close>

theorem invoke_canceled_is_timeout:
  "fst (invoke liveClient 0 (Some \<lparr>deadline = None, canceledAt = Some 5\<rparr>)
          ''GetServiceStatus'' [] (Delivered 10 \<lparr>Value = JBool True, Error = None\<rparr>) True) =
     Returns (Inl (WrapError ''connection timeout: GetServiceStatus - context canceled''
                     ErrConnectionTimeout)) \<and>
   fst (invoke liveClient 0 (Some \<lparr>deadline = None, canceledAt = Some 5\<rparr>)
          ''GetServiceStatus'' [] (Delivered 10 \<lparr>Value = JBool True, Error = None\<rparr>) True) \<noteq>
     Returns (Inr (JBool True)) \<and>
   connected liveClient \<and>
   Error \<lparr>Value = JBool True, Error = None\<rparr> = None \<and>
   effectiveCtx liveClient 0 (Some \<lparr>deadline = None, canceledAt = Some 5\<rparr>) =
     Returns (Some \<lparr>deadline = Some 30000000000, canceledAt = Some 5\<rparr>) \<and>
   (10 :: int) < 30000000000"
  by (simp add: invoke_eval)

text \<open>
  C3, amended. A call of \<^verbatim>\<open>invoke\<close> on a connected client that holds a transport handle
  always returns, after submitting the call to that handle, and its result is decided by
  which comes first, the reply or the end of the effective context, which always comes:
  at its deadline or, earlier, when the caller cancels it. A reply that comes first gives
  the error wrapping \<^verbatim>\<open>ErrInvokeFailed\<close> with the method name and the cause when it
  carries a remote error, and the raw result with no error when it carries none. When the
  context ends first, or no reply ever comes, the result is the error wrapping
  \<^verbatim>\<open>ErrConnectionTimeout\<close> with the method name and the context's error, which is
  "deadline exceeded" or "canceled". When both are ready at the same instant, either of
  the two may be taken.
\<close>

theorem invoke_classified:
  assumes "connected c" and "connection c = Some h"
  shows "\<exists>cx dn.
     effectiveCtx c now ctx0 = Returns (Some cx) \<and> DoneAt cx = Some dn \<and>
     (Err cx = Canceled \<or> Err cx = DeadlineExceeded) \<and>
     (case reply of
        Silent \<Rightarrow>
          invoke c now ctx0 m args reply pick =
            (Returns (Inl (Errorf_w_s_v ErrConnectionTimeout m (Err cx))),
             [TransportInvoke h m args])
      | Delivered t res \<Rightarrow>
          invoke c now ctx0 m args reply pick =
            (if max now t < max now dn \<or> (max now t = max now dn \<and> pick)
             then (case Error res of
                     Some e \<Rightarrow>
                       (Returns (Inl (Errorf_w_s_v ErrInvokeFailed m e)),
                        [TransportInvoke h m args, Log LevelError ''Method %s failed: %v''])
                   | None \<Rightarrow> (Returns (Inr (Value res)), [TransportInvoke h m args]))
             else (Returns (Inl (Errorf_w_s_v ErrConnectionTimeout m (Err cx))),
                   [TransportInvoke h m args])))"
proof -
  obtain cx d where eff: "effectiveCtx c now ctx0 = Returns (Some cx)" and "deadline cx = Some d"
    using effectiveCtx_has_deadline by blast
  then obtain dn where dn: "DoneAt cx = Some dn"
    using DoneAt_deadline by blast
  note inv = invoke_connected [OF assms eff]
  have "case reply of
        Silent \<Rightarrow>
          invoke c now ctx0 m args reply pick =
            (Returns (Inl (Errorf_w_s_v ErrConnectionTimeout m (Err cx))),
             [TransportInvoke h m args])
      | Delivered t res \<Rightarrow>
          invoke c now ctx0 m args reply pick =
            (if max now t < max now dn \<or> (max now t = max now dn \<and> pick)
             then (case Error res of
                     Some e \<Rightarrow>
                       (Returns (Inl (Errorf_w_s_v ErrInvokeFailed m e)),
                        [TransportInvoke h m args, Log LevelError ''Method %s failed: %v''])
                   | None \<Rightarrow> (Returns (Inr (Value res)), [TransportInvoke h m args]))
             else (Returns (Inl (Errorf_w_s_v ErrConnectionTimeout m (Err cx))),
                   [TransportInvoke h m args]))"
  proof (cases reply)
    case Silent
    then show ?thesis by (simp add: inv select2_def dn)
  next
    case (Delivered t res)
    then show ?thesis by (auto simp: inv select2_def dn)
  qed
  with eff dn Err_cases [of cx] show ?thesis by blast
qed

theorem invoke_classified_witness:
  "connected liveClient \<and> connection liveClient = Some 1 \<and>
   invoke liveClient 0 (Some \<lparr>deadline = None, canceledAt = None\<rparr>) ''GetDailyQuest''
     [JString ''q1'']
     (Delivered 3 \<lparr>Value = JNull, Error = Some (Foreign ''quest not found'')\<rparr>) True =
     (Returns (Inl (WrapError ''hub method invocation failed: GetDailyQuest - quest not found''
                      ErrInvokeFailed)),
      [TransportInvoke 1 ''GetDailyQuest'' [JString ''q1''],
       Log LevelError ''Method %s failed: %v''])"
  using invoke_classified
    [where c = liveClient and h = 1 and now = 0
       and ?ctx0.0 = "Some \<lparr>deadline = None, canceledAt = None\<rparr>"
       and m = "''GetDailyQuest''" and args = "[JString ''q1'']"
       and reply = "Delivered 3 \<lparr>Value = JNull, Error = Some (Foreign ''quest not found'')\<rparr>"
       and pick = True]
  by (simp add: invoke_eval)

section \<open>A nil context\<close>



section \<open>The watch loop on a closed transport\<close>



section \<open>Connect and Disconnect\<close>

text \<open>
  C5. In whatever state a sequence of calls has left the client: \<^verbatim>\<open>Connect\<close> called
  while the connected flag is true returns nil, leaves the client as it is and has no
  effect, so it creates no transport handle; \<^verbatim>\<open>Disconnect\<close> returns nil and leaves the
  connected flag false, a second \<^verbatim>\<open>Disconnect\<close> right after it returns nil again and
  changes nothing in the client, and so does any number of them; without a transport
  handle \<^verbatim>\<open>Disconnect\<close> only clears the flag.
\<close>

theorem connect_disconnect_idempotent:
  "(connected c \<longrightarrow> Connect c now httpConn newClient = (None, c, [])) \<and>
   (case Disconnect c of
      (r, c1, evs) \<Rightarrow>
        r = None \<and> \<not> connected c1 \<and>
        (case Disconnect c1 of (r2, c2, evs2) \<Rightarrow> r2 = None \<and> c2 = c1) \<and>
        ((\<lambda>x. fst (snd (Disconnect x))) ^^ Suc n) c = c1) \<and>
   (connection c = None \<longrightarrow> Disconnect c = (None, c\<lparr>connected := False\<rparr>, []))"
proof -
  have idem: "fst (snd (Disconnect (fst (snd (Disconnect x))))) = fst (snd (Disconnect x))" for x
    by (simp add: Disconnect_def split: option.splits)
  have pw: "((\<lambda>x. fst (snd (Disconnect x))) ^^ Suc k) c = fst (snd (Disconnect c))" for k
    by (induction k) (simp_all add: idem)
  have "fst (Disconnect x) = None \<and> \<not> connected (fst (snd (Disconnect x)))" for x
    by (simp add: Disconnect_def split: option.splits)
  then show ?thesis
    using pw [of n] idem [of c]
    by (auto simp: Connect_def split: prod.splits) (auto simp: Disconnect_def split: option.splits)
qed

theorem connect_disconnect_idempotent_witness:
  "connected liveClient \<and>
   Connect liveClient 9 (Inr 2) (Inr 2) = (None, liveClient, []) \<and>
   Disconnect liveClient =
     (None, liveClient\<lparr>connected := False, observeCancel := None\<rparr>,
      [CancelObserve 1, Stop 1, Log LevelInfo ''Disconnected from Hub'']) \<and>
   Disconnect (liveClient\<lparr>connected := False, observeCancel := None\<rparr>) =
     (None, liveClient\<lparr>connected := False, observeCancel := None\<rparr>,
      [Stop 1, Log LevelInfo ''Disconnected from Hub'']) \<and>
   connection (NewClient ''http://localhost:5294/hub'' []) = None \<and>
   Disconnect (NewClient ''http://localhost:5294/hub'' []) =
     (None, NewClient ''http://localhost:5294/hub'' [], [])"
  using
    connect_disconnect_idempotent
      [where c = liveClient and now = 9 and httpConn = "Inr 2" and newClient = "Inr 2" and n = 0]
    connect_disconnect_idempotent
      [where c = "NewClient ''http://localhost:5294/hub'' []" and n = 0]
  by (simp add: liveClient_def NewClient_def Disconnect_def)

text \<open>
  C6. When the creation of the transport handle fails in \<^verbatim>\<open>Connect\<close> (called while the
  connected flag is false, as otherwise nothing is created), be it in
  \<^verbatim>\<open>signalr.NewHTTPConnection\<close> or in \<^verbatim>\<open>signalr.NewClient\<close>, \<^verbatim>\<open>Connect\<close> returns a non-nil
  error that wraps the failure, and the client is exactly as before: the flag false, no
  handle installed, the handler lists untouched. No subscription is made, no watch loop
  and no transport is started.
\<close>

theorem connect_creation_failure:
  "\<not> connected c \<Longrightarrow> httpConn = Inl e \<or> (httpConn = Inr k \<and> newClient = Inl e) \<Longrightarrow>
     \<exists>r evs.
       Connect c now httpConn newClient = (Some r, c, evs) \<and>
       r = Errorf_w (if httpConn = Inl e then ''failed to create connection: ''
                     else ''failed to create client: '') e \<and>
       errors_Is r e \<and>
       (\<forall>h. ObserveStateChanged h \<notin> set evs \<and> GoWatchStates h \<notin> set evs \<and>
            Start h \<notin> set evs) \<and>
       activeHandles evs = [] \<and> watchLoops evs = []"
  by (auto simp: Connect_def errors_Is_Errorf_w activeHandles_def watchLoops_def)

theorem connect_creation_failure_witness:
  "\<not> connected (NewClient ''http://localhost:5294/hub'' [WithTimeout (30 * second)]) \<and>
   Connect (NewClient ''http://localhost:5294/hub'' [WithTimeout (30 * second)]) 0
     (Inl (Foreign ''connection refused'')) (Inr 1) =
     (Some (WrapError ''failed to create connection: connection refused''
              (Foreign ''connection refused'')),
      NewClient ''http://localhost:5294/hub'' [WithTimeout (30 * second)],
      [NewHTTPConnection ''http://localhost:5294/hub'' (Some (30 * second)),
       Log LevelError ''Failed to create SignalR connection: %v''])"
  using connect_creation_failure
    [where c = "NewClient ''http://localhost:5294/hub'' [WithTimeout (30 * second)]"
       and httpConn = "Inl (Foreign ''connection refused'')" and newClient = "Inr 1"
       and e = "Foreign ''connection refused''" and now = 0]
  by (simp add: NewClient_def Connect_def Errorf_w_def withTimeout_def withDeadline_def
      ctx_WithCancel_def ctx_Background_def earliest_def)

section \<open>Two handles at once\<close>

text \<open>
  C9. \<^verbatim>\<open>Connect\<close> tests only the connected flag, which nothing but the watch loop sets.
  Called twice in a row on a new client, before the transport has reported
  \<^verbatim>\<open>ClientConnected\<close>, it creates and starts two transport handles and two watch loops.
  The client remembers the second only, so that \<^verbatim>\<open>Disconnect\<close> stops the second and
  leaves the first handle started and its watch loop subscribed.
\<close>

theorem connect_twice_two_handles:
  "(case run (newWorld ''http://localhost:5294/hub'' [])
           [CallConnect 0 (Inr 1) (Inr 1), CallConnect 1 (Inr 2) (Inr 2)] of
      None \<Rightarrow> False
    | Some w \<Rightarrow>
        activeHandles (trace w) = [1, 2] \<and> watchLoops (trace w) = [1, 2] \<and>
        connection (client w) = Some 2 \<and>
        (case Disconnect (client w) of
           (r, c1, evs) \<Rightarrow>
             activeHandles (trace w @ evs) = [1] \<and> watchLoops (trace w @ evs) = [1]))"
  by (simp add: newWorld_def NewClient_def Connect_def Disconnect_def activeHandles_def
      watchLoops_def withTimeout_def withDeadline_def ctx_WithCancel_def ctx_Background_def
      earliest_def second_def)

end
